theory Spec2Isabelle
  imports Complex_Main "HOL-Library.Log_Nat"
begin

section \<open>Dairy temperature control: catalog, rooms, sensor, recommendation, alerts\<close>

text \<open>
  The program is \<^verbatim>\<open>dairy_temperature_app.py\<close>. Its state is a SQLite database and the
  Streamlit session state. The database is modelled as a record of tables, each table a
  list of rows in insertion order; the session state as a record of the fields the
  functions below read and write. Every function that opens a connection takes the
  database and returns the new one.

  Python floats and SQLite REAL columns are IEEE doubles; a finite double is a real
  number, and the columns have type \<^typ>\<open>real\<close>. The comparisons, \<^verbatim>\<open>max\<close> and
  \<^verbatim>\<open>min\<close> of the source are exact on doubles. The sensor's arithmetic rounds every
  result to the nearest double (\<open>round_double\<close> below), since how far a reading moves
  depends on it. The recommendation and the humidity check are given as the expressions
  the source evaluates, over the reals. SQLite row ids are \<^typ>\<open>int\<close>, timestamps are
  seconds as \<^typ>\<open>nat\<close>.
\<close>

subsection \<open>Tables\<close>

type_synonym timestamp = nat

text \<open>
  Table \<^verbatim>\<open>products\<close>, the columns that \<^verbatim>\<open>get_all_products\<close> selects, in its order:
  \<^verbatim>\<open>(id, name, min_temp, max_temp, humidity, shelf_life)\<close>. This is also the tuple that
  \<^verbatim>\<open>recommend_temperature\<close> indexes with \<^verbatim>\<open>product[2]\<close> and \<^verbatim>\<open>product[3]\<close>.
\<close>

record product =
  p_id :: int
  p_name :: string
  p_min_temp :: real
  p_max_temp :: real
  p_humidity :: real
  p_shelf_life :: int

text \<open>
  Table \<^verbatim>\<open>rooms\<close>. The column \<^verbatim>\<open>current_product_id\<close> is nullable and carries no
  foreign-key constraint; \<^verbatim>\<open>last_updated\<close> is NULL until the first sensor update.
\<close>

record room =
  r_id :: int
  r_name :: string
  r_current_temp :: real
  r_target_temp :: real
  r_humidity :: real
  r_current_product_id :: "int option"
  r_last_updated :: "timestamp option"

text \<open>Table \<^verbatim>\<open>sensor_data\<close>.\<close>

record sensor_row =
  s_id :: int
  s_room_id :: int
  s_temperature :: real
  s_humidity :: real
  s_timestamp :: timestamp

record db =
  products :: "product list"
  rooms :: "room list"
  sensor_data :: "sensor_row list"

text \<open>
  The part of \<^verbatim>\<open>st.session_state\<close> that \<^verbatim>\<open>check_for_alerts\<close> uses. An alert is an
  f-string of the source; the model keeps which of the four messages it is and the two
  values the message is formatted from, not the rendered text.
\<close>

datatype alert =
  TemperatureTooLow real real
  | TemperatureTooHigh real real
  | HumidityDeviation real real
  | ManualOverrideActive

record session_state =
  current_room_id :: int
  manual_override :: bool
  alerts :: "alert list"

subsection \<open>SQLite primitives\<close>

datatype sqlite_error = IntegrityError

text \<open>\<^verbatim>\<open>cursor.fetchone()\<close>: the first row of the result, or \<^verbatim>\<open>None\<close>.\<close>

definition fetchone :: "'a list \<Rightarrow> 'a option" where
  "fetchone rows = (case rows of [] \<Rightarrow> None | row # _ \<Rightarrow> Some row)"

text \<open>
  The row id that \<^verbatim>\<open>INTEGER PRIMARY KEY AUTOINCREMENT\<close> gives a new row: one more than
  the largest id of the table, 1 for the empty table. The program never deletes from
  \<^verbatim>\<open>products\<close> or \<^verbatim>\<open>sensor_data\<close>, so the largest id ever used is the largest present.
\<close>

definition next_rowid :: "int list \<Rightarrow> int" where
  "next_rowid ids = fold max ids 0 + 1"

text \<open>
  \<^verbatim>\<open>INSERT INTO products (name, min_temp, max_temp, humidity, shelf_life) VALUES (?, ?, ?, ?, ?)\<close>.
  The only constraints of the table are the primary key and \<^verbatim>\<open>name TEXT UNIQUE\<close>
  (binary collation: equality of strings); a violated constraint raises
  \<^verbatim>\<open>sqlite3.IntegrityError\<close>.
\<close>

definition insert_product ::
  "string \<Rightarrow> real \<Rightarrow> real \<Rightarrow> real \<Rightarrow> int \<Rightarrow> db \<Rightarrow> sqlite_error + db" where
  "insert_product name min_temp max_temp humidity shelf_life d =
     (if name \<in> set (map p_name (products d)) then Inl IntegrityError
      else Inr (d\<lparr>products := products d @
             [\<lparr>p_id = next_rowid (map p_id (products d)), p_name = name,
               p_min_temp = min_temp, p_max_temp = max_temp,
               p_humidity = humidity, p_shelf_life = shelf_life\<rparr>]\<rparr>))"

text \<open>
  \<^verbatim>\<open>FROM rooms r LEFT JOIN products p ON r.current_product_id = p.id\<close> for one room row:
  the room paired with each matching product, or with NULL columns once when none
  matches (a NULL \<^verbatim>\<open>current_product_id\<close> matches nothing).
\<close>

definition left_join_products :: "product list \<Rightarrow> room \<Rightarrow> (room \<times> product option) list" where
  "left_join_products ps r =
     (case filter (\<lambda>p. r_current_product_id r = Some (p_id p)) ps of
        [] \<Rightarrow> [(r, None)]
      | matches \<Rightarrow> map (\<lambda>p. (r, Some p)) matches)"

text \<open>
  The query of \<^verbatim>\<open>check_for_alerts\<close>:
  \<^verbatim>\<open>SELECT r.current_temp, r.humidity, r.target_temp, p.min_temp, p.max_temp, p.humidity
  FROM rooms r LEFT JOIN products p ON r.current_product_id = p.id WHERE r.id = ?\<close>
  followed by \<^verbatim>\<open>fetchone()\<close>.
\<close>

type_synonym room_data = "real \<times> real \<times> real \<times> real option \<times> real option \<times> real option"

definition select_room_data :: "db \<Rightarrow> int \<Rightarrow> room_data option" where
  "select_room_data d room_id =
     fetchone
       (map (\<lambda>(r, po). (r_current_temp r, r_humidity r, r_target_temp r,
                         map_option p_min_temp po, map_option p_max_temp po,
                         map_option p_humidity po))
          (concat (map (left_join_products (products d))
                     (filter (\<lambda>r. r_id r = room_id) (rooms d)))))"

text \<open>
  The database file before \<^verbatim>\<open>init_db\<close> has run on it: after the
  \<^verbatim>\<open>CREATE TABLE IF NOT EXISTS\<close> statements every table is empty.
\<close>

definition empty_db :: db where
  "empty_db = \<lparr>products = [], rooms = [], sensor_data = []\<rparr>"

text \<open>
  \<^verbatim>\<open>init_db\<close>, the part on products and rooms: when \<^verbatim>\<open>SELECT COUNT(*)\<close> of the table
  is 0, insert the default rows with \<^verbatim>\<open>executemany\<close>, which numbers them from 1.
\<close>

definition init_db :: "db \<Rightarrow> db" where
  "init_db d =
     (let d1 = (if length (products d) = 0 then
                  d\<lparr>products :=
                      [\<lparr>p_id = 1, p_name = ''Milk'', p_min_temp = 2, p_max_temp = 4,
                        p_humidity = 70, p_shelf_life = 5\<rparr>,
                       \<lparr>p_id = 2, p_name = ''Curd'', p_min_temp = 2, p_max_temp = 4,
                        p_humidity = 75, p_shelf_life = 7\<rparr>,
                       \<lparr>p_id = 3, p_name = ''Butter'', p_min_temp = - 15, p_max_temp = - 10,
                        p_humidity = 80, p_shelf_life = 90\<rparr>,
                       \<lparr>p_id = 4, p_name = ''Cheese'', p_min_temp = 1, p_max_temp = 4,
                        p_humidity = 85, p_shelf_life = 30\<rparr>,
                       \<lparr>p_id = 5, p_name = ''Ice Cream'', p_min_temp = - 25, p_max_temp = - 18,
                        p_humidity = 70, p_shelf_life = 365\<rparr>]\<rparr>
                else d);
          d2 = (if length (rooms d1) = 0 then
                  d1\<lparr>rooms :=
                       [\<lparr>r_id = 1, r_name = ''Room 1'', r_current_temp = 4, r_target_temp = 4,
                         r_humidity = 70, r_current_product_id = None, r_last_updated = None\<rparr>,
                        \<lparr>r_id = 2, r_name = ''Room 2'', r_current_temp = 4, r_target_temp = 4,
                         r_humidity = 70, r_current_product_id = None, r_last_updated = None\<rparr>,
                        \<lparr>r_id = 3, r_name = ''Freezer 1'', r_current_temp = - 18,
                         r_target_temp = - 18, r_humidity = 70, r_current_product_id = None,
                         r_last_updated = None\<rparr>]\<rparr>
                else d1)
      in d2)"

subsection \<open>Database helper functions\<close>

text \<open>
  \<^verbatim>\<open>add_product\<close>: the insert inside \<^verbatim>\<open>try\<close>; on success commit and return
  \<^verbatim>\<open>True\<close>, on \<^verbatim>\<open>IntegrityError\<close> return \<^verbatim>\<open>False\<close>; the connection is closed
  either way, which discards what was not committed.
\<close>

definition add_product ::
  "string \<Rightarrow> real \<Rightarrow> real \<Rightarrow> real \<Rightarrow> int \<Rightarrow> db \<Rightarrow> bool \<times> db" where
  "add_product name min_temp max_temp humidity shelf_life d =
     (case insert_product name min_temp max_temp humidity shelf_life d of
        Inr d' \<Rightarrow> (True, d')
      | Inl IntegrityError \<Rightarrow> (False, d))"

text \<open>\<^verbatim>\<open>get_all_products\<close> and \<^verbatim>\<open>get_all_rooms\<close>: every row of the table.\<close>

definition get_all_products :: "db \<Rightarrow> product list" where
  "get_all_products d = products d"

text \<open>
  \<^verbatim>\<open>get_all_rooms\<close> selects \<^verbatim>\<open>id, name, current_temp, target_temp, humidity,
  current_product_id\<close>.
\<close>

type_synonym room_tuple = "int \<times> string \<times> real \<times> real \<times> real \<times> int option"

definition get_all_rooms :: "db \<Rightarrow> room_tuple list" where
  "get_all_rooms d =
     map (\<lambda>r. (r_id r, r_name r, r_current_temp r, r_target_temp r, r_humidity r,
               r_current_product_id r)) (rooms d)"

text \<open>
  \<^verbatim>\<open>update_room(room_id, target_temp=None, current_product_id=None)\<close>: each of the two
  UPDATE statements runs only when its argument \<^verbatim>\<open>is not None\<close>, on the rows
  \<^verbatim>\<open>WHERE id = ?\<close>.
\<close>

definition update_room :: "int \<Rightarrow> real option \<Rightarrow> int option \<Rightarrow> db \<Rightarrow> db" where
  "update_room room_id target_temp current_product_id d =
     (let d1 = (case target_temp of
                  None \<Rightarrow> d
                | Some t \<Rightarrow> d\<lparr>rooms := map (\<lambda>r. if r_id r = room_id
                                                 then r\<lparr>r_target_temp := t\<rparr> else r) (rooms d)\<rparr>);
          d2 = (case current_product_id of
                  None \<Rightarrow> d1
                | Some pid \<Rightarrow> d1\<lparr>rooms := map (\<lambda>r. if r_id r = room_id
                                                    then r\<lparr>r_current_product_id := Some pid\<rparr>
                                                    else r) (rooms d1)\<rparr>)
      in d2)"

subsection \<open>Simulated sensor\<close>

text \<open>
  Double-precision arithmetic. Python's \<^verbatim>\<open>+\<close>, \<^verbatim>\<open>-\<close> and \<^verbatim>\<open>*\<close> on floats
  return the double nearest to the exact result, ties going to the even significand, and
  a literal such as \<^verbatim>\<open>0.2\<close> is the double nearest to the decimal.

  \<open>rne\<close> rounds a real to the nearest integer, ties to even.
\<close>

definition rne :: "real \<Rightarrow> int" where
  "rne t =
     (let f = \<lfloor>t\<rfloor>; r = t - of_int f
      in if r < 1 / 2 then f
         else if 1 / 2 < r then f + 1
         else if even f then f else f + 1)"

text \<open>
  A finite double is an integer multiple of \<open>2^-1074\<close>, the smallest subnormal. For
  \<open>y \<ge> 0\<close> in this unit, doubles near \<open>y\<close> are spaced \<open>2 ^ ulp_exp y\<close> apart: 1
  below \<open>2^53\<close> (subnormals and the first binade), and \<open>2^q\<close> on
  \<open>[2^(52+q), 2^(53+q))\<close>, where the significand has 53 bits.
\<close>

definition ulp_exp :: "real \<Rightarrow> nat" where
  "ulp_exp y = nat (bitlen \<lfloor>y\<rfloor> - 53)"

definition round_scaled :: "real \<Rightarrow> real" where
  "round_scaled y = of_int (rne (y / 2 ^ ulp_exp y)) * 2 ^ ulp_exp y"

text \<open>
  The double nearest to \<open>x\<close>, ties to even. For \<open>\<bar>x\<bar>\<close> beyond the largest double the
  source's result is an infinity, which this function does not give: it is the source's
  rounding wherever the exact result is within the range of finite doubles, as every
  sum of a stored temperature or humidity and a fluctuation is.
\<close>

definition round_double :: "real \<Rightarrow> real" where
  "round_double x = sgn x * round_scaled (\<bar>x\<bar> * 2 ^ 1074) / 2 ^ 1074"

text \<open>
  \<^verbatim>\<open>random.uniform(a, b)\<close> of the Python library is \<^verbatim>\<open>a + (b - a) * self.random()\<close>,
  where \<^verbatim>\<open>random()\<close> returns a double \<open>u\<close> with \<open>0 \<le> u < 1\<close>. The value \<open>u\<close> is
  an argument here; each of the three operations rounds.
\<close>

definition uniform :: "real \<Rightarrow> real \<Rightarrow> real \<Rightarrow> real" where
  "uniform a b u = round_double (a + round_double (round_double (b - a) * u))"

text \<open>
  What \<^verbatim>\<open>update_sensor_data\<close> takes from outside the program: the values of
  \<^verbatim>\<open>random()\<close> that its two calls of \<^verbatim>\<open>random.uniform\<close> consume, SQLite's
  \<^verbatim>\<open>CURRENT_TIMESTAMP\<close> at the UPDATE and at the INSERT, and \<^verbatim>\<open>datetime.now()\<close>.
\<close>

record sensor_env =
  random_temp :: real
  random_humidity :: real
  update_timestamp :: timestamp
  insert_timestamp :: timestamp
  datetime_now :: timestamp

record RoomSensor =
  room_id :: int

text \<open>
  \<^verbatim>\<open>RoomSensor.update_sensor_data\<close>: read \<^verbatim>\<open>current_temp, humidity\<close> of the room with
  \<^verbatim>\<open>fetchone()\<close>; when there is a row, add \<^verbatim>\<open>random.uniform(-0.2, 0.2)\<close> to the
  temperature and \<^verbatim>\<open>random.uniform(-1, 1)\<close> to the humidity (float additions), write the new values to the
  room, insert one \<^verbatim>\<open>sensor_data\<close> row and return the reading; otherwise return
  \<^verbatim>\<open>(None, None, None)\<close>.
\<close>

definition update_sensor_data ::
  "RoomSensor \<Rightarrow> sensor_env \<Rightarrow> db \<Rightarrow> (real option \<times> real option \<times> timestamp option) \<times> db" where
  "update_sensor_data self env d =
     (case fetchone (map (\<lambda>r. (r_current_temp r, r_humidity r))
                       (filter (\<lambda>r. r_id r = room_id self) (rooms d))) of
        Some (room0, room1) \<Rightarrow>
          (let new_temp =
                 round_double (room0 + uniform (- round_double 0.2) (round_double 0.2)
                                          (random_temp env));
               new_humidity =
                 round_double (room1 + uniform (- 1) 1 (random_humidity env));
               d1 = d\<lparr>rooms := map (\<lambda>r. if r_id r = room_id self
                                         then r\<lparr>r_current_temp := new_temp,
                                                r_humidity := new_humidity,
                                                r_last_updated := Some (update_timestamp env)\<rparr>
                                         else r) (rooms d)\<rparr>;
               d2 = d1\<lparr>sensor_data := sensor_data d1 @
                          [\<lparr>s_id = next_rowid (map s_id (sensor_data d1)),
                            s_room_id = room_id self, s_temperature = new_temp,
                            s_humidity = new_humidity,
                            s_timestamp = insert_timestamp env\<rparr>]\<rparr>
           in ((Some new_temp, Some new_humidity, Some (datetime_now env)), d2))
      | None \<Rightarrow> ((None, None, None), d))"

subsection \<open>Recommendation and alerts\<close>

text \<open>
  \<^verbatim>\<open>recommend_temperature(product, external_temp)\<close>: \<^verbatim>\<open>None\<close> when there is no
  product, else one of three values by the external temperature.
\<close>

definition recommend_temperature :: "product option \<Rightarrow> real \<Rightarrow> real option" where
  "recommend_temperature product external_temp =
     (case product of
        None \<Rightarrow> None
      | Some p \<Rightarrow>
          if external_temp > 30 then
            Some (max (p_min_temp p) ((p_min_temp p + p_max_temp p) / 2 - 1))
          else if external_temp < 10 then
            Some (min (p_max_temp p) ((p_min_temp p + p_max_temp p) / 2 + 1))
          else
            Some ((p_min_temp p + p_max_temp p) / 2))"

text \<open>
  \<^verbatim>\<open>check_for_alerts\<close>: start from the empty list; when the query returned a row, append
  the alert of each of the three checks that holds, each check guarded by
  \<^verbatim>\<open>is not None\<close> on the product column it reads; then append the override notice when
  \<^verbatim>\<open>manual_override\<close> is set; store the list in the session state.
\<close>

definition check_for_alerts :: "db \<Rightarrow> session_state \<Rightarrow> session_state" where
  "check_for_alerts d st =
     (let alerts0 = [];
          room_data = select_room_data d (current_room_id st);
          alerts3 =
            (case room_data of
               None \<Rightarrow> alerts0
             | Some (current_temp, current_humidity, target_temp, min_temp, max_temp,
                     ideal_humidity) \<Rightarrow>
                 (let alerts1 =
                        (case min_temp of
                           None \<Rightarrow> alerts0
                         | Some mn \<Rightarrow>
                             if current_temp < mn
                             then alerts0 @ [TemperatureTooLow current_temp mn]
                             else alerts0);
                      alerts2 =
                        (case max_temp of
                           None \<Rightarrow> alerts1
                         | Some mx \<Rightarrow>
                             if current_temp > mx
                             then alerts1 @ [TemperatureTooHigh current_temp mx]
                             else alerts1)
                  in (case ideal_humidity of
                        None \<Rightarrow> alerts2
                      | Some ih \<Rightarrow>
                          if \<bar>current_humidity - ih\<bar> > 10
                          then alerts2 @ [HumidityDeviation current_humidity ih]
                          else alerts2)));
          alerts4 = (if manual_override st then alerts3 @ [ManualOverrideActive] else alerts3)
      in st\<lparr>alerts := alerts4\<rparr>)"

section \<open>Properties\<close>

subsection \<open>Recommendation\<close>

text \<open>
  C1. For every product with \<open>min_temp \<le> max_temp\<close> and every external temperature,
  \<open>recommend_temperature\<close> returns \<open>max min_temp (midpoint - 1)\<close> when the external
  temperature is above 30, \<open>min max_temp (midpoint + 1)\<close> when it is below 10, and the
  midpoint \<open>(min_temp + max_temp) / 2\<close> otherwise; at exactly 30 and at exactly 10 it
  returns the midpoint.
\<close>

theorem recommend_temperature_bands:
  assumes "p_min_temp p \<le> p_max_temp p"
  shows "(external_temp > 30 \<longrightarrow>
            recommend_temperature (Some p) external_temp =
              Some (max (p_min_temp p) ((p_min_temp p + p_max_temp p) / 2 - 1)))
       \<and> (external_temp < 10 \<longrightarrow>
            recommend_temperature (Some p) external_temp =
              Some (min (p_max_temp p) ((p_min_temp p + p_max_temp p) / 2 + 1)))
       \<and> (10 \<le> external_temp \<and> external_temp \<le> 30 \<longrightarrow>
            recommend_temperature (Some p) external_temp =
              Some ((p_min_temp p + p_max_temp p) / 2))
       \<and> recommend_temperature (Some p) 30 = Some ((p_min_temp p + p_max_temp p) / 2)
       \<and> recommend_temperature (Some p) 10 = Some ((p_min_temp p + p_max_temp p) / 2)"
  by (simp add: recommend_temperature_def)

theorem recommend_temperature_bands_witness:
  "recommend_temperature
     (Some \<lparr>p_id = 1, p_name = ''Milk'', p_min_temp = 2, p_max_temp = 4,
            p_humidity = 70, p_shelf_life = 5\<rparr>) 35 = Some 2
   \<and> recommend_temperature
     (Some \<lparr>p_id = 1, p_name = ''Milk'', p_min_temp = 2, p_max_temp = 4,
            p_humidity = 70, p_shelf_life = 5\<rparr>) 5 = Some 4
   \<and> recommend_temperature
     (Some \<lparr>p_id = 1, p_name = ''Milk'', p_min_temp = 2, p_max_temp = 4,
            p_humidity = 70, p_shelf_life = 5\<rparr>) 30 = Some 3
   \<and> recommend_temperature
     (Some \<lparr>p_id = 1, p_name = ''Milk'', p_min_temp = 2, p_max_temp = 4,
            p_humidity = 70, p_shelf_life = 5\<rparr>) 10 = Some 3"
  using recommend_temperature_bands
          [of "\<lparr>p_id = 1, p_name = ''Milk'', p_min_temp = 2, p_max_temp = 4,
                p_humidity = 70, p_shelf_life = 5\<rparr>" 35]
        recommend_temperature_bands
          [of "\<lparr>p_id = 1, p_name = ''Milk'', p_min_temp = 2, p_max_temp = 4,
                p_humidity = 70, p_shelf_life = 5\<rparr>" 5]
  by simp

subsection \<open>The alert query\<close>

text \<open>
  \<^verbatim>\<open>fetchone()\<close> on the joined query is the first room with the id, with the first
  product its \<^verbatim>\<open>current_product_id\<close> resolves to.
\<close>

lemma find_filter_Cons:
  "filter P xs = m # ms \<Longrightarrow> find P xs = Some m"
  by (induction xs) (auto split: if_splits)

lemma fetchone_join:
  "fetchone (map f (concat (map (left_join_products ps) (filter P rs)))) =
     (case find P rs of None \<Rightarrow> None
      | Some r \<Rightarrow> Some (f (r, find (\<lambda>p. r_current_product_id r = Some (p_id p)) ps)))"
proof (induction rs)
  case Nil
  show ?case by (simp add: fetchone_def)
next
  case (Cons r rs)
  show ?case
  proof (cases "P r")
    case False
    with Cons show ?thesis by simp
  next
    case True
    show ?thesis
    proof (cases "filter (\<lambda>p. r_current_product_id r = Some (p_id p)) ps")
      case Nil
      then have "find (\<lambda>p. r_current_product_id r = Some (p_id p)) ps = None"
        by (simp add: find_None_iff filter_empty_conv)
      with True Nil show ?thesis
        by (simp add: fetchone_def left_join_products_def)
    next
      case (Cons m ms)
      then have "find (\<lambda>p. r_current_product_id r = Some (p_id p)) ps = Some m"
        by (rule find_filter_Cons)
      with True Cons show ?thesis
        by (simp add: fetchone_def left_join_products_def)
    qed
  qed
qed

lemma select_room_data_find:
  "select_room_data d rid =
     (case find (\<lambda>r. r_id r = rid) (rooms d) of
        None \<Rightarrow> None
      | Some r \<Rightarrow>
          Some (r_current_temp r, r_humidity r, r_target_temp r,
                map_option p_min_temp
                  (find (\<lambda>p. r_current_product_id r = Some (p_id p)) (products d)),
                map_option p_max_temp
                  (find (\<lambda>p. r_current_product_id r = Some (p_id p)) (products d)),
                map_option p_humidity
                  (find (\<lambda>p. r_current_product_id r = Some (p_id p)) (products d))))"
  unfolding select_room_data_def fetchone_join
  by (simp split: option.splits)

lemma select_room_data_missing:
  "rid \<notin> set (map r_id (rooms d)) \<Longrightarrow> select_room_data d rid = None"
proof -
  assume "rid \<notin> set (map r_id (rooms d))"
  then have "find (\<lambda>r. r_id r = rid) (rooms d) = None"
    by (auto simp: find_None_iff)
  then show ?thesis by (simp add: select_room_data_find)
qed

text \<open>
  The alert list for a row that the query returned, as the concatenation of what each of
  the four rules contributes.
\<close>

lemma check_for_alerts_row:
  assumes "select_room_data d (current_room_id st) =
             Some (current_temp, current_humidity, target_temp, min_temp, max_temp,
                   ideal_humidity)"
  shows "alerts (check_for_alerts d st) =
           (case min_temp of
              None \<Rightarrow> []
            | Some mn \<Rightarrow> if current_temp < mn then [TemperatureTooLow current_temp mn] else [])
         @ (case max_temp of
              None \<Rightarrow> []
            | Some mx \<Rightarrow> if current_temp > mx then [TemperatureTooHigh current_temp mx] else [])
         @ (case ideal_humidity of
              None \<Rightarrow> []
            | Some ih \<Rightarrow> if \<bar>current_humidity - ih\<bar> > 10
                         then [HumidityDeviation current_humidity ih] else [])
         @ (if manual_override st then [ManualOverrideActive] else [])"
  using assms by (simp add: check_for_alerts_def Let_def split: option.splits)

subsection \<open>Alerts\<close>

text \<open>
  C2. For every row the query returns (current temperature, current humidity, the
  product's range or NULLs, its ideal humidity or NULL) and every value of
  \<open>manual_override\<close>, the alert list is: the low-temperature alert when it applies, then
  the high-temperature alert when it applies, then the humidity-deviation alert when it
  applies, then the override notice when \<open>manual_override\<close> is set. Every applicable
  alert is in the list, in this order, whichever others are. The witness is the example of
  the specification: temperature 1, range (2, 4), humidity 60, ideal humidity 75, override
  on give low temperature, humidity deviation, override notice.
\<close>

theorem check_for_alerts_order:
  assumes "select_room_data d (current_room_id st) =
             Some (current_temp, current_humidity, target_temp, min_temp, max_temp,
                   ideal_humidity)"
  shows "alerts (check_for_alerts d st) =
           (case min_temp of
              None \<Rightarrow> []
            | Some mn \<Rightarrow> if current_temp < mn then [TemperatureTooLow current_temp mn] else [])
         @ (case max_temp of
              None \<Rightarrow> []
            | Some mx \<Rightarrow> if current_temp > mx then [TemperatureTooHigh current_temp mx] else [])
         @ (case ideal_humidity of
              None \<Rightarrow> []
            | Some ih \<Rightarrow> if \<bar>current_humidity - ih\<bar> > 10
                         then [HumidityDeviation current_humidity ih] else [])
         @ (if manual_override st then [ManualOverrideActive] else [])"
  using assms by (rule check_for_alerts_row)

theorem check_for_alerts_order_witness:
  "alerts (check_for_alerts
     ((init_db empty_db)\<lparr>rooms :=
        [\<lparr>r_id = 1, r_name = ''Room 1'', r_current_temp = 1, r_target_temp = 4,
          r_humidity = 60, r_current_product_id = Some 2, r_last_updated = None\<rparr>]\<rparr>)
     \<lparr>current_room_id = 1, manual_override = True, alerts = []\<rparr>)
   = [TemperatureTooLow 1 2, HumidityDeviation 60 75, ManualOverrideActive]"
proof -
  have row: "select_room_data
     ((init_db empty_db)\<lparr>rooms :=
        [\<lparr>r_id = 1, r_name = ''Room 1'', r_current_temp = 1, r_target_temp = 4,
          r_humidity = 60, r_current_product_id = Some 2, r_last_updated = None\<rparr>]\<rparr>)
     (current_room_id \<lparr>current_room_id = 1, manual_override = True, alerts = []\<rparr>)
     = Some (1, 60, 4, Some 2, Some 4, Some 75)"
    by (simp add: select_room_data_def left_join_products_def fetchone_def init_db_def
          empty_db_def)
  show ?thesis
    using check_for_alerts_order [OF row] by simp
qed

text \<open>
  C5. For a room with no assigned product and \<open>manual_override\<close> off, the alert list is
  empty whatever the room's temperature and humidity are. In general a check whose
  product column is NULL is skipped: with no minimum there is no low-temperature alert,
  with no maximum no high-temperature alert, with no ideal humidity no humidity-deviation
  alert.
\<close>

theorem check_for_alerts_no_product:
  "(find (\<lambda>r. r_id r = current_room_id st) (rooms d) = Some r
      \<and> r_current_product_id r = None \<and> \<not> manual_override st
      \<longrightarrow> alerts (check_for_alerts d st) = [])
   \<and> (select_room_data d (current_room_id st) =
        Some (current_temp, current_humidity, target_temp, min_temp, max_temp, ideal_humidity)
      \<longrightarrow> (min_temp = None \<longrightarrow>
             (\<forall>a b. TemperatureTooLow a b \<notin> set (alerts (check_for_alerts d st))))
        \<and> (max_temp = None \<longrightarrow>
             (\<forall>a b. TemperatureTooHigh a b \<notin> set (alerts (check_for_alerts d st))))
        \<and> (ideal_humidity = None \<longrightarrow>
             (\<forall>a b. HumidityDeviation a b \<notin> set (alerts (check_for_alerts d st)))))"
proof (intro conjI impI)
  assume h: "find (\<lambda>r. r_id r = current_room_id st) (rooms d) = Some r
      \<and> r_current_product_id r = None \<and> \<not> manual_override st"
  then have "select_room_data d (current_room_id st) =
      Some (r_current_temp r, r_humidity r, r_target_temp r, None, None, None)"
    by (simp add: select_room_data_find find_None_iff)
  from check_for_alerts_row [OF this] h show "alerts (check_for_alerts d st) = []"
    by simp
next
  assume "select_room_data d (current_room_id st) =
        Some (current_temp, current_humidity, target_temp, min_temp, max_temp, ideal_humidity)"
     and "min_temp = None"
  then show "\<forall>a b. TemperatureTooLow a b \<notin> set (alerts (check_for_alerts d st))"
    by (simp add: check_for_alerts_row split: option.splits)
next
  assume "select_room_data d (current_room_id st) =
        Some (current_temp, current_humidity, target_temp, min_temp, max_temp, ideal_humidity)"
     and "max_temp = None"
  then show "\<forall>a b. TemperatureTooHigh a b \<notin> set (alerts (check_for_alerts d st))"
    by (simp add: check_for_alerts_row split: option.splits)
next
  assume "select_room_data d (current_room_id st) =
        Some (current_temp, current_humidity, target_temp, min_temp, max_temp, ideal_humidity)"
     and "ideal_humidity = None"
  then show "\<forall>a b. HumidityDeviation a b \<notin> set (alerts (check_for_alerts d st))"
    by (simp add: check_for_alerts_row split: option.splits)
qed

theorem check_for_alerts_no_product_witness:
  "alerts (check_for_alerts
     ((init_db empty_db)\<lparr>rooms :=
        [\<lparr>r_id = 1, r_name = ''Room 1'', r_current_temp = 50, r_target_temp = 4,
          r_humidity = 5, r_current_product_id = None, r_last_updated = None\<rparr>]\<rparr>)
     \<lparr>current_room_id = 1, manual_override = False, alerts = []\<rparr>) = []"
proof -
  have "find (\<lambda>r. r_id r = current_room_id \<lparr>current_room_id = 1, manual_override = False, alerts = []\<rparr>)
          (rooms ((init_db empty_db)\<lparr>rooms :=
        [\<lparr>r_id = 1, r_name = ''Room 1'', r_current_temp = 50, r_target_temp = 4,
          r_humidity = 5, r_current_product_id = None, r_last_updated = None\<rparr>]\<rparr>))
        = Some \<lparr>r_id = 1, r_name = ''Room 1'', r_current_temp = 50, r_target_temp = 4,
          r_humidity = 5, r_current_product_id = None, r_last_updated = None\<rparr>"
    by simp
  then show ?thesis
    using check_for_alerts_no_product
      [of "\<lparr>current_room_id = 1, manual_override = False, alerts = []\<rparr>"
          "(init_db empty_db)\<lparr>rooms :=
        [\<lparr>r_id = 1, r_name = ''Room 1'', r_current_temp = 50, r_target_temp = 4,
          r_humidity = 5, r_current_product_id = None, r_last_updated = None\<rparr>]\<rparr>"
          "\<lparr>r_id = 1, r_name = ''Room 1'', r_current_temp = 50, r_target_temp = 4,
          r_humidity = 5, r_current_product_id = None, r_last_updated = None\<rparr>"]
    by simp
qed

text \<open>
  C10. When no room has the id \<open>current_room_id\<close>, the temperature and humidity checks
  are skipped and the override notice is still appended: the alert list is the single
  override notice when \<open>manual_override\<close> is set and empty otherwise.
\<close>

theorem check_for_alerts_missing_room:
  assumes "current_room_id st \<notin> set (map r_id (rooms d))"
  shows "alerts (check_for_alerts d st) =
           (if manual_override st then [ManualOverrideActive] else [])"
  using select_room_data_missing [OF assms] by (simp add: check_for_alerts_def)

theorem check_for_alerts_missing_room_witness:
  "alerts (check_for_alerts (init_db empty_db)
      \<lparr>current_room_id = 7, manual_override = True, alerts = []\<rparr>) = [ManualOverrideActive]
   \<and> alerts (check_for_alerts (init_db empty_db)
      \<lparr>current_room_id = 7, manual_override = False, alerts = []\<rparr>) = []"
proof -
  have a: "current_room_id \<lparr>current_room_id = 7, manual_override = True, alerts = []\<rparr>
             \<notin> set (map r_id (rooms (init_db empty_db)))"
    by (simp add: init_db_def empty_db_def)
  have b: "current_room_id \<lparr>current_room_id = 7, manual_override = False, alerts = []\<rparr>
             \<notin> set (map r_id (rooms (init_db empty_db)))"
    by (simp add: init_db_def empty_db_def)
  show ?thesis
    using check_for_alerts_missing_room [OF a] check_for_alerts_missing_room [OF b] by simp
qed

subsection \<open>Catalog\<close>

text \<open>
  C6. For every catalog and every name already in it, \<open>add_product\<close> with that name
  returns \<open>False\<close> (the caught \<open>IntegrityError\<close>, not an exception) and leaves the
  database, so the existing product and the rest of the catalog, unchanged.
\<close>

theorem add_product_duplicate_name:
  assumes "name \<in> set (map p_name (products d))"
  shows "add_product name min_temp max_temp humidity shelf_life d = (False, d)"
  using assms by (simp add: add_product_def insert_product_def)

theorem add_product_duplicate_name_witness:
  "add_product ''Milk'' 0 1 50 3 (init_db empty_db) = (False, init_db empty_db)"
proof -
  have "''Milk'' \<in> set (map p_name (products (init_db empty_db)))"
    by (simp add: init_db_def empty_db_def)
  then show ?thesis by (rule add_product_duplicate_name)
qed

text \<open>
  C3, as the specification states it: a product with \<open>min_temp > max_temp\<close> is rejected.
  It is not: on the seeded catalog \<open>add_product\<close> accepts the new name Ghee with the
  range (6, 4) and stores the row.
\<close>

theorem add_product_inverted_range_counterexample:
  "add_product ''Ghee'' 6 4 70 7 (init_db empty_db) =
     (True, (init_db empty_db)\<lparr>products := products (init_db empty_db) @
        [\<lparr>p_id = 6, p_name = ''Ghee'', p_min_temp = 6, p_max_temp = 4,
          p_humidity = 70, p_shelf_life = 7\<rparr>]\<rparr>)
   \<and> p_min_temp \<lparr>p_id = 6, p_name = ''Ghee'', p_min_temp = 6, p_max_temp = 4,
          p_humidity = 70, p_shelf_life = 7\<rparr>
       > p_max_temp \<lparr>p_id = 6, p_name = ''Ghee'', p_min_temp = 6, p_max_temp = 4,
          p_humidity = 70, p_shelf_life = 7\<rparr>"
  by (simp add: add_product_def insert_product_def init_db_def empty_db_def next_rowid_def)

text \<open>
  C3, amended. \<open>add_product\<close> does not look at the range. It succeeds exactly when the
  name is not yet in the catalog, and then appends the product with \<open>min_temp\<close> and
  \<open>max_temp\<close> as given, whichever is larger; when the name is in the catalog it creates
  no record.
\<close>

theorem add_product_name_only:
  "fst (add_product name min_temp max_temp humidity shelf_life d) =
     (name \<notin> set (map p_name (products d)))
   \<and> (name \<notin> set (map p_name (products d)) \<longrightarrow>
        products (snd (add_product name min_temp max_temp humidity shelf_life d)) =
          products d @
            [\<lparr>p_id = next_rowid (map p_id (products d)), p_name = name,
              p_min_temp = min_temp, p_max_temp = max_temp,
              p_humidity = humidity, p_shelf_life = shelf_life\<rparr>])
   \<and> (name \<in> set (map p_name (products d)) \<longrightarrow>
        snd (add_product name min_temp max_temp humidity shelf_life d) = d)"
  by (simp add: add_product_def insert_product_def)

theorem add_product_name_only_witness:
  "fst (add_product ''Paneer'' 8 3 70 7 (init_db empty_db))
   \<and> products (snd (add_product ''Paneer'' 8 3 70 7 (init_db empty_db))) =
        products (init_db empty_db) @
          [\<lparr>p_id = 6, p_name = ''Paneer'', p_min_temp = 8, p_max_temp = 3,
            p_humidity = 70, p_shelf_life = 7\<rparr>]"
proof -
  have new: "''Paneer'' \<notin> set (map p_name (products (init_db empty_db)))"
    by (simp add: init_db_def empty_db_def)
  have id: "next_rowid (map p_id (products (init_db empty_db))) = 6"
    by (simp add: init_db_def empty_db_def next_rowid_def)
  show ?thesis
    using add_product_name_only [of "''Paneer''" 8 3 70 7 "init_db empty_db"] new id
    by simp
qed

subsection \<open>Rooms\<close>

text \<open>
  Reading one room from \<open>get_all_rooms\<close>: the first tuple with the id. The updates of
  \<open>update_room\<close> keep the id of every row, so the room read after an update is the
  updated first row with the id.
\<close>

lemma fetchone_map: "fetchone (map f xs) = map_option f (fetchone xs)"
  by (cases xs) (simp_all add: fetchone_def)

lemma fetchone_filter_Some:
  assumes "fetchone (filter P xs) = Some x"
  shows "P x"
proof -
  from assms obtain ys where "filter P xs = x # ys"
    by (auto simp: fetchone_def split: list.splits)
  then have "x \<in> set (filter P xs)" by simp
  then show ?thesis by simp
qed

lemma get_room_after_map:
  assumes "\<And>r. r_id (upd r) = r_id r"
  shows "fetchone (filter (\<lambda>row. fst row = rid) (get_all_rooms (d\<lparr>rooms := map upd (rooms d)\<rparr>))) =
         map_option (\<lambda>r. (r_id (upd r), r_name (upd r), r_current_temp (upd r),
                           r_target_temp (upd r), r_humidity (upd r),
                           r_current_product_id (upd r)))
           (fetchone (filter (\<lambda>r. r_id r = rid) (rooms d)))"
  using assms
  by (simp add: get_all_rooms_def filter_map comp_def fetchone_map)

lemma get_room_rows:
  "fetchone (filter (\<lambda>row. fst row = rid) (get_all_rooms d)) =
     map_option (\<lambda>r. (r_id r, r_name r, r_current_temp r, r_target_temp r, r_humidity r,
                       r_current_product_id r))
       (fetchone (filter (\<lambda>r. r_id r = rid) (rooms d)))"
  by (simp add: get_all_rooms_def filter_map comp_def fetchone_map)

text \<open>
  C4, as the specification states it: assigning no product clears the room's product
  reference. It does not: \<open>update_room\<close> takes \<open>None\<close> for an argument that was not
  given and skips the UPDATE, so room 1 keeps product 2.
\<close>

theorem update_room_none_keeps_product_counterexample:
  "fetchone (filter (\<lambda>row. fst row = 1)
      (get_all_rooms (update_room 1 None None
         (update_room 1 None (Some 2) (init_db empty_db))))) =
     Some (1, ''Room 1'', 4, 4, 70, Some 2)"
  by (simp add: get_all_rooms_def update_room_def init_db_def empty_db_def fetchone_def)

text \<open>
  C4, amended. For every room that exists and every product id, \<open>update_room\<close> with
  that product id followed by reading the room gives the room with this product
  reference and its other columns as before; \<open>update_room\<close> with no product id leaves
  the product reference as it was, and the room is still there.
\<close>

theorem update_room_product_roundtrip:
  assumes "fetchone (filter (\<lambda>row. fst row = rid) (get_all_rooms d)) =
             Some (i, name, current_temp, target_temp, humidity, current_product)"
  shows "fetchone (filter (\<lambda>row. fst row = rid)
                    (get_all_rooms (update_room rid None (Some pid) d))) =
           Some (i, name, current_temp, target_temp, humidity, Some pid)
       \<and> fetchone (filter (\<lambda>row. fst row = rid)
                    (get_all_rooms (update_room rid None None d))) =
           Some (i, name, current_temp, target_temp, humidity, current_product)"
proof -
  from assms obtain r where
    r: "fetchone (filter (\<lambda>r. r_id r = rid) (rooms d)) = Some r"
    and f: "i = r_id r" "name = r_name r" "current_temp = r_current_temp r"
      "target_temp = r_target_temp r" "humidity = r_humidity r"
      "current_product = r_current_product_id r"
    by (auto simp: get_room_rows)
  have "r_id r = rid"
    using r by (rule fetchone_filter_Some)
  have set: "fetchone (filter (\<lambda>row. fst row = rid)
                    (get_all_rooms (update_room rid None (Some pid) d))) =
           Some (i, name, current_temp, target_temp, humidity, Some pid)"
    unfolding update_room_def Let_def option.case
    by (subst get_room_after_map) (simp_all add: r f \<open>r_id r = rid\<close>)
  have keep: "update_room rid None None d = d"
    by (simp add: update_room_def)
  show ?thesis using set keep assms by simp
qed

theorem update_room_product_roundtrip_witness:
  "fetchone (filter (\<lambda>row. fst row = 2)
      (get_all_rooms (update_room 2 None (Some 4) (init_db empty_db)))) =
     Some (2, ''Room 2'', 4, 4, 70, Some 4)
   \<and> fetchone (filter (\<lambda>row. fst row = 2)
      (get_all_rooms (update_room 2 None None (init_db empty_db)))) =
     Some (2, ''Room 2'', 4, 4, 70, None)"
proof -
  have "fetchone (filter (\<lambda>row. fst row = 2) (get_all_rooms (init_db empty_db))) =
          Some (2, ''Room 2'', 4, 4, 70, None)"
    by (simp add: get_all_rooms_def init_db_def empty_db_def fetchone_def)
  then show ?thesis by (rule update_room_product_roundtrip)
qed

subsection \<open>Rounding to doubles\<close>

text \<open>
  \<open>round_double\<close> is monotone, odd, within half a unit in the last place of its argument,
  and computed by \<open>round_double_eval\<close> once the binade of the argument is known.
\<close>

lemma rne_of_int [simp]: "rne (of_int n) = n"
  by (simp add: rne_def)

lemma rne_bounds: "of_int (rne t) - 1 / 2 \<le> t \<and> t \<le> of_int (rne t) + 1 / 2"
  unfolding rne_def Let_def by (auto; linarith)

lemma rne_mono:
  assumes "s \<le> t"
  shows "rne s \<le> rne t"
proof (cases "\<lfloor>s\<rfloor> = \<lfloor>t\<rfloor>")
  case True
  with assms show ?thesis
    unfolding rne_def Let_def by auto
next
  case False
  with assms have "\<lfloor>s\<rfloor> + 1 \<le> \<lfloor>t\<rfloor>"
    using floor_mono [of s t] by linarith
  moreover have "rne s \<le> \<lfloor>s\<rfloor> + 1"
    unfolding rne_def Let_def by auto
  moreover have "\<lfloor>t\<rfloor> \<le> rne t"
    unfolding rne_def Let_def by auto
  ultimately show ?thesis by linarith
qed

lemma ulp_exp_upper: "y < 2 ^ (53 + ulp_exp y)"
proof -
  have "bitlen \<lfloor>y\<rfloor> \<le> int (53 + ulp_exp y)"
    by (simp add: ulp_exp_def)
  then have "\<lfloor>y\<rfloor> < 2 ^ nat (int (53 + ulp_exp y))"
    by (simp only: bitlen_le_iff_power)
  then have "\<lfloor>y\<rfloor> < 2 ^ (53 + ulp_exp y)"
    by (simp only: nat_int)
  then have "y < of_int (2 ^ (53 + ulp_exp y))"
    by (simp only: floor_less_iff)
  then show ?thesis by simp
qed

lemma ulp_exp_lower:
  assumes "0 < ulp_exp y"
  shows "2 ^ (52 + ulp_exp y) \<le> y"
proof -
  from assms have "int (53 + ulp_exp y) \<le> bitlen \<lfloor>y\<rfloor>"
    by (simp add: ulp_exp_def)
  then have "2 ^ (nat (int (53 + ulp_exp y)) - 1) \<le> \<lfloor>y\<rfloor>"
    by (simp only: bitlen_ge_iff_power) simp
  then have "2 ^ (52 + ulp_exp y) \<le> \<lfloor>y\<rfloor>"
    by (simp only: nat_int) simp
  then have "of_int (2 ^ (52 + ulp_exp y)) \<le> y"
    by (simp only: le_floor_iff)
  then show ?thesis by simp
qed

lemma ulp_exp_eqI:
  assumes "y < 2 ^ (53 + q)" and "q = 0 \<or> 2 ^ (52 + q) \<le> y"
  shows "ulp_exp y = q"
proof -
  from assms(1) have "y < of_int (2 ^ (53 + q))" by simp
  then have "\<lfloor>y\<rfloor> < 2 ^ (53 + q)"
    by (simp only: floor_less_iff)
  then have "\<lfloor>y\<rfloor> < 2 ^ nat (int (53 + q))"
    by (simp only: nat_int)
  then have up: "bitlen \<lfloor>y\<rfloor> \<le> int (53 + q)"
    by (simp only: bitlen_le_iff_power) simp
  show ?thesis
  proof (cases "q = 0")
    case True
    with up show ?thesis by (simp add: ulp_exp_def)
  next
    case False
    with assms(2) have "of_int (2 ^ (52 + q)) \<le> y" by simp
    then have "2 ^ (52 + q) \<le> \<lfloor>y\<rfloor>"
      by (simp only: le_floor_iff)
    then have "2 ^ (nat (int (53 + q)) - 1) \<le> \<lfloor>y\<rfloor>"
      by (simp only: nat_int) simp
    then have "int (53 + q) \<le> bitlen \<lfloor>y\<rfloor>"
      by (simp only: bitlen_ge_iff_power) simp
    with up show ?thesis by (simp add: ulp_exp_def)
  qed
qed

lemma ulp_exp_mono:
  assumes "x \<le> y"
  shows "ulp_exp x \<le> ulp_exp y"
proof -
  have "\<lfloor>x\<rfloor> \<le> \<lfloor>y\<rfloor>"
    using assms by (rule floor_mono)
  then have "bitlen \<lfloor>x\<rfloor> \<le> bitlen \<lfloor>y\<rfloor>"
    by (simp add: bitlen_def floorlog_mono)
  then show ?thesis by (simp add: ulp_exp_def)
qed


lemma rne_le_int: "t \<le> of_int n \<Longrightarrow> rne t \<le> n"
  using rne_mono [of t "of_int n"] by simp

lemma rne_ge_int: "of_int n \<le> t \<Longrightarrow> n \<le> rne t"
  using rne_mono [of "of_int n" t] by simp

lemma round_scaled_eval:
  assumes "y < 2 ^ (53 + q)" and "q = 0 \<or> 2 ^ (52 + q) \<le> y"
  shows "round_scaled y = of_int (rne (y / 2 ^ q)) * 2 ^ q"
  using ulp_exp_eqI [OF assms] by (simp add: round_scaled_def)

lemma rne_zero [simp]: "rne 0 = 0"
  using rne_of_int [of 0] by simp

lemma round_scaled_zero [simp]: "round_scaled 0 = 0"
  by (simp add: round_scaled_def)

lemma round_scaled_nonneg:
  assumes "0 \<le> y"
  shows "0 \<le> round_scaled y"
proof -
  have "of_int 0 \<le> y / 2 ^ ulp_exp y"
    using assms by simp
  then have "0 \<le> rne (y / 2 ^ ulp_exp y)"
    by (rule rne_ge_int)
  then show ?thesis by (simp add: round_scaled_def)
qed

lemma round_scaled_upper: "round_scaled y \<le> 2 ^ (53 + ulp_exp y)"
proof -
  have "y / 2 ^ ulp_exp y \<le> 2 ^ 53"
    using ulp_exp_upper [of y] by (simp add: power_add divide_le_eq)
  then have "y / 2 ^ ulp_exp y \<le> of_int (2 ^ 53)"
    by simp
  then have "rne (y / 2 ^ ulp_exp y) \<le> 2 ^ 53"
    by (rule rne_le_int)
  then have "real_of_int (rne (y / 2 ^ ulp_exp y)) \<le> real_of_int (2 ^ 53)"
    by (simp only: of_int_le_iff)
  then have "real_of_int (rne (y / 2 ^ ulp_exp y)) * 2 ^ ulp_exp y \<le> 2 ^ 53 * 2 ^ ulp_exp y"
    by (intro mult_right_mono) simp_all
  then show ?thesis by (simp add: round_scaled_def power_add)
qed

lemma round_scaled_lower:
  assumes "0 < ulp_exp y"
  shows "2 ^ (52 + ulp_exp y) \<le> round_scaled y"
proof -
  have "2 ^ 52 \<le> y / 2 ^ ulp_exp y"
    using ulp_exp_lower [OF assms] by (simp add: power_add le_divide_eq)
  then have "of_int (2 ^ 52) \<le> y / 2 ^ ulp_exp y"
    by simp
  then have "2 ^ 52 \<le> rne (y / 2 ^ ulp_exp y)"
    by (rule rne_ge_int)
  then have "real_of_int (2 ^ 52) \<le> real_of_int (rne (y / 2 ^ ulp_exp y))"
    by (simp only: of_int_le_iff)
  then have "2 ^ 52 * 2 ^ ulp_exp y \<le> real_of_int (rne (y / 2 ^ ulp_exp y)) * 2 ^ ulp_exp y"
    by (intro mult_right_mono) simp_all
  then show ?thesis by (simp add: round_scaled_def power_add)
qed

lemma round_scaled_mono:
  assumes "x \<le> y"
  shows "round_scaled x \<le> round_scaled y"
proof (cases "ulp_exp x = ulp_exp y")
  case True
  have "x / 2 ^ ulp_exp y \<le> y / 2 ^ ulp_exp y"
    using assms by (simp add: divide_right_mono)
  then have "rne (x / 2 ^ ulp_exp y) \<le> rne (y / 2 ^ ulp_exp y)"
    by (rule rne_mono)
  then have "real_of_int (rne (x / 2 ^ ulp_exp y)) * 2 ^ ulp_exp y
               \<le> real_of_int (rne (y / 2 ^ ulp_exp y)) * 2 ^ ulp_exp y"
    by (intro mult_right_mono) simp_all
  with True show ?thesis by (simp add: round_scaled_def)
next
  case False
  with ulp_exp_mono [OF assms] have less: "ulp_exp x < ulp_exp y" by simp
  have "round_scaled x \<le> 2 ^ (53 + ulp_exp x)"
    by (rule round_scaled_upper)
  also have "(2::real) ^ (53 + ulp_exp x) \<le> 2 ^ (52 + ulp_exp y)"
    using less by (intro power_increasing) simp_all
  also have "\<dots> \<le> round_scaled y"
    using less by (intro round_scaled_lower) simp
  finally show ?thesis .
qed

lemma round_scaled_error: "\<bar>round_scaled y - y\<bar> \<le> 2 ^ ulp_exp y / 2"
proof -
  let ?p = "(2::real) ^ ulp_exp y"
  have "\<bar>of_int (rne (y / ?p)) - y / ?p\<bar> \<le> 1 / 2"
    using rne_bounds [of "y / ?p"] by linarith
  then have "\<bar>of_int (rne (y / ?p)) - y / ?p\<bar> * ?p \<le> 1 / 2 * ?p"
    by (intro mult_right_mono) simp_all
  moreover have "\<bar>of_int (rne (y / ?p)) - y / ?p\<bar> * ?p = \<bar>of_int (rne (y / ?p)) * ?p - y\<bar>"
  proof -
    have "\<bar>of_int (rne (y / ?p)) - y / ?p\<bar> * ?p = \<bar>(of_int (rne (y / ?p)) - y / ?p) * ?p\<bar>"
      by (simp add: abs_mult)
    also have "(of_int (rne (y / ?p)) - y / ?p) * ?p = of_int (rne (y / ?p)) * ?p - y"
      by (simp add: left_diff_distrib)
    finally show ?thesis .
  qed
  ultimately show ?thesis by (simp add: round_scaled_def)
qed

lemma round_scaled_relative_error:
  assumes "0 \<le> y"
  shows "\<bar>round_scaled y - y\<bar> \<le> y / 2 ^ 53 + 1 / 2"
proof (cases "ulp_exp y = 0")
  case True
  with round_scaled_error [of y] assms show ?thesis by simp
next
  case False
  then have "2 ^ (52 + ulp_exp y) \<le> y"
    by (intro ulp_exp_lower) simp
  then have "2 ^ ulp_exp y / 2 \<le> y / 2 ^ 53"
    by (simp add: power_add field_simps)
  with round_scaled_error [of y] show ?thesis by linarith
qed


lemma round_double_pos:
  assumes "0 \<le> x"
  shows "round_double x = round_scaled (x * 2 ^ 1074) / 2 ^ 1074"
proof (cases "x = 0")
  case True
  then show ?thesis by (simp add: round_double_def)
next
  case False
  with assms have "sgn x = 1" and "\<bar>x\<bar> = x" by simp_all
  then show ?thesis by (simp only: round_double_def mult_1)
qed

lemma round_double_zero [simp]: "round_double 0 = 0"
  by (simp add: round_double_def)

lemma round_double_minus: "round_double (- x) = - round_double x"
  by (simp only: round_double_def sgn_minus abs_minus_cancel mult_minus_left minus_divide_left)

lemma round_double_nonneg:
  assumes "0 \<le> x"
  shows "0 \<le> round_double x"
proof -
  have "0 \<le> round_scaled (x * 2 ^ 1074)"
    using assms by (intro round_scaled_nonneg mult_nonneg_nonneg) simp_all
  then have "0 \<le> round_scaled (x * 2 ^ 1074) / 2 ^ 1074"
    by (intro divide_nonneg_nonneg) simp_all
  then show ?thesis by (simp only: round_double_pos [OF assms])
qed

lemma round_double_mono_nonneg:
  assumes "0 \<le> x" and "x \<le> y"
  shows "round_double x \<le> round_double y"
proof -
  from assms have y: "0 \<le> y" by simp
  have "x * 2 ^ 1074 \<le> y * 2 ^ 1074"
    using assms(2) by (intro mult_right_mono) simp_all
  then have "round_scaled (x * 2 ^ 1074) \<le> round_scaled (y * 2 ^ 1074)"
    by (rule round_scaled_mono)
  then have "round_scaled (x * 2 ^ 1074) / 2 ^ 1074 \<le> round_scaled (y * 2 ^ 1074) / 2 ^ 1074"
    by (intro divide_right_mono) simp_all
  then show ?thesis by (simp only: round_double_pos [OF assms(1)] round_double_pos [OF y])
qed

lemma round_double_mono:
  assumes "x \<le> y"
  shows "round_double x \<le> round_double y"
proof (cases "0 \<le> x")
  case True
  then show ?thesis using assms by (rule round_double_mono_nonneg)
next
  case False
  then have x: "0 \<le> - x" by simp
  show ?thesis
  proof (cases "0 \<le> y")
    case True
    have "round_double x = - round_double (- x)"
      using round_double_minus [of x] by simp
    also have "\<dots> \<le> 0"
      using round_double_nonneg [OF x] by simp
    also have "0 \<le> round_double y"
      using True by (rule round_double_nonneg)
    finally show ?thesis .
  next
    case False
    then have "0 \<le> - y" and "- y \<le> - x" using assms by simp_all
    then have "round_double (- y) \<le> round_double (- x)"
      by (rule round_double_mono_nonneg)
    then show ?thesis by (simp only: round_double_minus neg_le_iff_le)
  qed
qed

lemma round_double_error_nonneg:
  assumes "0 \<le> x"
  shows "\<bar>round_double x - x\<bar> \<le> x / 2 ^ 53 + 1 / 2 ^ 1075"
proof -
  define S :: real where "S = 2 ^ 1074"
  have S: "0 < S" by (simp add: S_def)
  have half: "(1::real) / 2 ^ 1075 = 1 / 2 / S"
    unfolding S_def by (simp only: power_Suc [of 2 1074, simplified] flip: numeral_eq_Suc)
  have "0 \<le> x * S" using assms S by simp
  then have "\<bar>round_scaled (x * S) - x * S\<bar> \<le> x * S / 2 ^ 53 + 1 / 2"
    by (rule round_scaled_relative_error)
  then have "\<bar>round_scaled (x * S) - x * S\<bar> / S \<le> (x * S / 2 ^ 53 + 1 / 2) / S"
    using S by (intro divide_right_mono) simp_all
  moreover have "\<bar>round_scaled (x * S) - x * S\<bar> / S = \<bar>round_scaled (x * S) / S - x\<bar>"
  proof -
    have "\<bar>round_scaled (x * S) - x * S\<bar> / S = \<bar>(round_scaled (x * S) - x * S) / S\<bar>"
      using S by (simp add: abs_divide)
    also have "(round_scaled (x * S) - x * S) / S = round_scaled (x * S) / S - x"
      using S by (simp add: diff_divide_distrib)
    finally show ?thesis .
  qed
  moreover have "(x * S / 2 ^ 53 + 1 / 2) / S = x / 2 ^ 53 + 1 / 2 / S"
    using S by (simp add: add_divide_distrib)
  ultimately have "\<bar>round_scaled (x * S) / S - x\<bar> \<le> x / 2 ^ 53 + 1 / 2 / S"
    by simp
  then show ?thesis
    unfolding round_double_pos [OF assms] half S_def .
qed

lemma round_double_error: "\<bar>round_double x - x\<bar> \<le> \<bar>x\<bar> / 2 ^ 53 + 1 / 2 ^ 1075"
proof (cases "0 \<le> x")
  case True
  then have "\<bar>x\<bar> = x" by simp
  with round_double_error_nonneg [OF True] show ?thesis by (simp only:)
next
  case False
  then have x: "0 \<le> - x" and a: "\<bar>x\<bar> = - x" by simp_all
  have "\<bar>round_double x - x\<bar> = \<bar>round_double (- x) - (- x)\<bar>"
    by (simp only: round_double_minus)
  with round_double_error_nonneg [OF x] a show ?thesis by (simp only:)
qed

lemma round_double_eval:
  assumes "0 \<le> x" and "k \<le> 1074" and "x * 2 ^ k < 2 ^ 53"
    and "k = 1074 \<or> 2 ^ 52 \<le> x * 2 ^ k"
  shows "round_double x = of_int (rne (x * 2 ^ k)) / 2 ^ k"
proof -
  define q where "q = 1074 - k"
  have S: "(2::real) ^ 1074 = 2 ^ k * 2 ^ q"
    using assms(2) by (simp only: q_def flip: power_add) simp
  have "x * 2 ^ k * 2 ^ q < 2 ^ 53 * 2 ^ q"
    using assms(3) by (intro mult_strict_right_mono) simp_all
  then have up: "x * (2 ^ k * 2 ^ q) < 2 ^ (53 + q)"
    by (simp only: power_add mult.assoc)
  have "q = 0 \<or> 2 ^ (52 + q) \<le> x * (2 ^ k * 2 ^ q)"
  proof (cases "k = 1074")
    case True
    then show ?thesis by (simp add: q_def)
  next
    case False
    with assms(4) have "2 ^ 52 * 2 ^ q \<le> x * 2 ^ k * 2 ^ q"
      by (intro mult_right_mono) simp_all
    then have "2 ^ (52 + q) \<le> x * (2 ^ k * 2 ^ q)"
      by (simp only: power_add mult.assoc)
    then show ?thesis ..
  qed
  with up have "round_scaled (x * (2 ^ k * 2 ^ q)) =
                  of_int (rne (x * (2 ^ k * 2 ^ q) / 2 ^ q)) * 2 ^ q"
    by (rule round_scaled_eval)
  moreover have "x * (2 ^ k * 2 ^ q) / 2 ^ q = x * 2 ^ k"
    by simp
  ultimately have "round_scaled (x * (2 ^ k * 2 ^ q)) / (2 ^ k * 2 ^ q) =
                     of_int (rne (x * 2 ^ k)) / 2 ^ k"
    by simp
  then show ?thesis
    unfolding round_double_pos [OF assms(1)] S .
qed

lemma round_double_lit: "round_double 0.2 = 3602879701896397 / 2 ^ 54"
proof -
  have "round_double 0.2 = of_int (rne (0.2 * 2 ^ 55)) / 2 ^ 55"
    by (rule round_double_eval) simp_all
  also have "rne (0.2 * 2 ^ 55) = 7205759403792794"
    by (simp add: rne_def Let_def)
  finally show ?thesis by simp
qed

subsection \<open>Sensor\<close>

text \<open>
  The constants of the sensor are doubles that round to themselves, so a fluctuation
  \<^verbatim>\<open>random.uniform(-0.2, 0.2)\<close> stays within the double \<open>round_double 0.2\<close> of zero,
  and \<^verbatim>\<open>random.uniform(-1, 1)\<close> within 1. Adding a fluctuation to a stored value
  rounds once more.
\<close>

lemma round_double_lit_idem: "round_double (round_double 0.2) = round_double 0.2"
proof -
  have "round_double (3602879701896397 / 2 ^ 54) =
          of_int (rne (3602879701896397 / 2 ^ 54 * 2 ^ 55)) / 2 ^ 55"
    by (rule round_double_eval) simp_all
  also have "(3602879701896397 / 2 ^ 54 * 2 ^ 55 :: real) = of_int 7205759403792794"
    by simp
  also have "real_of_int (rne (of_int 7205759403792794)) / 2 ^ 55 = 3602879701896397 / 2 ^ 54"
    by (simp only: rne_of_int) simp
  finally show ?thesis by (simp only: round_double_lit)
qed

lemma round_double_lit_double: "round_double (2 * round_double 0.2) = 2 * round_double 0.2"
proof -
  have "round_double (2 * (3602879701896397 / 2 ^ 54)) =
          of_int (rne (2 * (3602879701896397 / 2 ^ 54) * 2 ^ 54)) / 2 ^ 54"
    by (rule round_double_eval) simp_all
  also have "(2 * (3602879701896397 / 2 ^ 54) * 2 ^ 54 :: real) = of_int 7205759403792794"
    by simp
  also have "real_of_int (rne (of_int 7205759403792794)) / 2 ^ 54 =
               2 * (3602879701896397 / 2 ^ 54)"
    by (simp only: rne_of_int)
  finally show ?thesis by (simp only: round_double_lit)
qed

lemma round_double_one [simp]: "round_double 1 = 1"
proof -
  have "round_double 1 = of_int (rne (1 * 2 ^ 52)) / 2 ^ 52"
    by (rule round_double_eval) simp_all
  also have "(1 * 2 ^ 52 :: real) = of_int (2 ^ 52)"
    by simp
  finally show ?thesis by (simp only: rne_of_int) simp
qed

lemma round_double_two [simp]: "round_double 2 = 2"
proof -
  have "round_double 2 = of_int (rne (2 * 2 ^ 51)) / 2 ^ 51"
    by (rule round_double_eval) simp_all
  also have "(2 * 2 ^ 51 :: real) = of_int (2 ^ 52)"
    by simp
  finally show ?thesis by (simp only: rne_of_int) simp
qed

lemma round_double_lit_nonneg: "0 \<le> round_double 0.2"
  by (rule round_double_nonneg) simp

lemma uniform_range:
  assumes "0 \<le> u" and "u < 1" and "0 \<le> A"
    and "round_double A = A" and "round_double (2 * A) = 2 * A"
  shows "\<bar>uniform (- A) A u\<bar> \<le> A"
proof -
  have "0 \<le> 2 * A * u"
    using assms(1,3) by simp
  then have "round_double 0 \<le> round_double (2 * A * u)"
    by (rule round_double_mono)
  then have lo: "0 \<le> round_double (2 * A * u)"
    by simp
  have "2 * A * u \<le> 2 * A * 1"
    using assms(1,2,3) by (intro mult_left_mono) simp_all
  then have "round_double (2 * A * u) \<le> round_double (2 * A)"
    using round_double_mono [of "2 * A * u" "2 * A"] by simp
  then have hi: "round_double (2 * A * u) \<le> 2 * A"
    by (simp only: assms(5))
  have "round_double (- A) \<le> round_double (- A + round_double (2 * A * u))"
    using lo by (intro round_double_mono) simp
  then have 1: "- A \<le> round_double (- A + round_double (2 * A * u))"
    by (simp only: round_double_minus assms(4))
  have "round_double (- A + round_double (2 * A * u)) \<le> round_double A"
    using hi by (intro round_double_mono) simp
  then have 2: "round_double (- A + round_double (2 * A * u)) \<le> A"
    by (simp only: assms(4))
  have "uniform (- A) A u = round_double (- A + round_double (2 * A * u))"
    by (simp add: uniform_def assms(5))
  with 1 2 show ?thesis by (simp add: abs_le_iff)
qed

lemma uniform_temp_range:
  assumes "0 \<le> u" and "u < 1"
  shows "\<bar>uniform (- round_double 0.2) (round_double 0.2) u\<bar> \<le> round_double 0.2"
  using assms round_double_lit_nonneg round_double_lit_idem round_double_lit_double
  by (rule uniform_range)

lemma uniform_humidity_range:
  assumes "0 \<le> u" and "u < 1"
  shows "\<bar>uniform (- 1) 1 u\<bar> \<le> 1"
  using uniform_range [OF assms, of 1] by simp

lemma round_double_add_bound:
  assumes "\<bar>delta\<bar> \<le> A"
  shows "\<bar>round_double (old + delta) - old\<bar> \<le> A + (\<bar>old\<bar> + A) / 2 ^ 53 + 1 / 2 ^ 1075"
proof -
  define e :: real where "e = 1 / 2 ^ 1075"
  have "\<bar>old + delta\<bar> \<le> \<bar>old\<bar> + A"
    using assms by linarith
  then have "\<bar>old + delta\<bar> / 2 ^ 53 \<le> (\<bar>old\<bar> + A) / 2 ^ 53"
    by (intro divide_right_mono) simp_all
  moreover have "\<bar>round_double (old + delta) - (old + delta)\<bar> \<le> \<bar>old + delta\<bar> / 2 ^ 53 + e"
    unfolding e_def by (rule round_double_error)
  ultimately have "\<bar>round_double (old + delta) - old\<bar> \<le> A + (\<bar>old\<bar> + A) / 2 ^ 53 + e"
    using assms by linarith
  then show ?thesis unfolding e_def .
qed

text \<open>The result of \<open>update_sensor_data\<close> for a room that exists, written out.\<close>

lemma fetchone_filter_find: "fetchone (filter P xs) = find P xs"
  by (induction xs) (simp_all add: fetchone_def)

lemma find_map_update:
  assumes "find P xs = Some x" and "\<And>y. P (f y) = P y"
  shows "find P (map f xs) = Some (f x)"
  using assms by (induction xs) (auto split: if_splits)

lemma update_sensor_data_found:
  assumes "find (\<lambda>r. r_id r = room_id self) (rooms d) = Some r"
    and "new_temp = round_double (r_current_temp r +
           uniform (- round_double 0.2) (round_double 0.2) (random_temp env))"
    and "new_humidity = round_double (r_humidity r + uniform (- 1) 1 (random_humidity env))"
  shows "update_sensor_data self env d =
    ((Some new_temp, Some new_humidity, Some (datetime_now env)),
     d\<lparr>rooms := map (\<lambda>x. if r_id x = room_id self
                          then x\<lparr>r_current_temp := new_temp, r_humidity := new_humidity,
                                 r_last_updated := Some (update_timestamp env)\<rparr>
                          else x) (rooms d),
        sensor_data := sensor_data d @
          [\<lparr>s_id = next_rowid (map s_id (sensor_data d)), s_room_id = room_id self,
            s_temperature = new_temp, s_humidity = new_humidity,
            s_timestamp = insert_timestamp env\<rparr>]\<rparr>)"
proof -
  have "fetchone (map (\<lambda>r. (r_current_temp r, r_humidity r))
          (filter (\<lambda>r. r_id r = room_id self) (rooms d))) =
        Some (r_current_temp r, r_humidity r)"
    using assms(1) by (cases "filter (\<lambda>r. r_id r = room_id self) (rooms d)")
      (simp_all add: fetchone_def flip: fetchone_filter_find)
  then show ?thesis
    unfolding assms(2,3) by (simp add: update_sensor_data_def Let_def)
qed

text \<open>
  C7. A reference that does not resolve gives an absence marker, not an exception:
  \<open>recommend_temperature\<close> returns \<open>None\<close> when there is no product, and
  \<open>update_sensor_data\<close> for a room id that no room has returns
  \<open>(None, None, None)\<close> and leaves the database as it was.
\<close>

theorem absence_markers:
  "recommend_temperature None external_temp = None
   \<and> (room_id self \<notin> set (map r_id (rooms d)) \<longrightarrow>
        update_sensor_data self env d = ((None, None, None), d))"
proof (intro conjI impI)
  show "recommend_temperature None external_temp = None"
    by (simp add: recommend_temperature_def)
next
  assume "room_id self \<notin> set (map r_id (rooms d))"
  then have "\<forall>r \<in> set (rooms d). r_id r \<noteq> room_id self"
    by (metis image_eqI set_map)
  then have "filter (\<lambda>r. r_id r = room_id self) (rooms d) = []"
    by (simp add: filter_empty_conv)
  then show "update_sensor_data self env d = ((None, None, None), d)"
    by (simp add: update_sensor_data_def fetchone_def)
qed

theorem absence_markers_witness:
  "recommend_temperature None 35 = None
   \<and> update_sensor_data \<lparr>room_id = 9\<rparr>
        \<lparr>random_temp = 0.75, random_humidity = 0.25, update_timestamp = 100,
         insert_timestamp = 100, datetime_now = 101\<rparr> (init_db empty_db)
       = ((None, None, None), init_db empty_db)"
proof -
  have "room_id \<lparr>room_id = 9\<rparr> \<notin> set (map r_id (rooms (init_db empty_db)))"
    by (simp add: init_db_def empty_db_def)
  then show ?thesis
    using absence_markers [of 35 "\<lparr>room_id = 9\<rparr>" "init_db empty_db"] by simp
qed

text \<open>
  The reading of Room 1 of the seeded database (temperature 4.0, humidity 70.0) when
  \<^verbatim>\<open>random()\<close> returns 0 for the temperature and 0.5 for the humidity.
\<close>

lemma uniform_temp_at_zero:
  "uniform (- round_double 0.2) (round_double 0.2) 0 = - round_double 0.2"
  by (simp only: uniform_def mult_zero_right round_double_zero add_0_right
        round_double_minus round_double_lit_idem)

lemma uniform_humidity_at_half: "uniform (- 1) 1 (1 / 2) = 0"
  by (simp add: uniform_def)

lemma round_double_seventy: "round_double 70 = 70"
proof -
  have "round_double 70 = of_int (rne (70 * 2 ^ 46)) / 2 ^ 46"
    by (rule round_double_eval) simp_all
  also have "(70 * 2 ^ 46 :: real) = of_int (70 * 2 ^ 46)"
    by simp
  finally show ?thesis by (simp only: rne_of_int) simp
qed

lemma round_double_four_minus_lit:
  "round_double (4 + - round_double 0.2) = 4278419646001971 / 2 ^ 50"
proof -
  have "round_double (4 + - (3602879701896397 / 2 ^ 54)) =
          of_int (rne ((4 + - (3602879701896397 / 2 ^ 54)) * 2 ^ 51)) / 2 ^ 51"
    by (rule round_double_eval) simp_all
  also have "rne ((4 + - (3602879701896397 / 2 ^ 54)) * 2 ^ 51) = 8556839292003942"
    by (simp add: rne_def Let_def)
  also have "(real_of_int 8556839292003942 / 2 ^ 51) = 4278419646001971 / 2 ^ 50"
    by simp
  finally show ?thesis by (simp only: round_double_lit)
qed

text \<open>
  C8, as the specification states it: the new temperature is within 0.2 of the room's
  previous temperature. It is not always: for Room 1 at 4.0 and \<^verbatim>\<open>random()\<close> = 0 the
  fluctuation is the double \<open>-0.2\<close>, which lies just below \<open>-1/5\<close>, and the float sum
  \<open>4.0 + (-0.2)\<close> is the double \<open>4278419646001971 / 2^50\<close>, further than 0.2 from 4.
\<close>

theorem update_sensor_data_bound_counterexample:
  "fst (update_sensor_data \<lparr>room_id = 1\<rparr>
          \<lparr>random_temp = 0, random_humidity = 1 / 2, update_timestamp = 100,
           insert_timestamp = 100, datetime_now = 101\<rparr> (init_db empty_db)) =
     (Some (4278419646001971 / 2 ^ 50), Some 70, Some 101)
   \<and> (0.2 :: real) < \<bar>4278419646001971 / 2 ^ 50 - 4\<bar>"
proof -
  have room: "find (\<lambda>r. r_id r = room_id \<lparr>room_id = 1\<rparr>) (rooms (init_db empty_db)) =
          Some \<lparr>r_id = 1, r_name = ''Room 1'', r_current_temp = 4, r_target_temp = 4,
                r_humidity = 70, r_current_product_id = None, r_last_updated = None\<rparr>"
    by (simp add: init_db_def empty_db_def)
  have temp: "4278419646001971 / 2 ^ 50 =
      round_double (r_current_temp \<lparr>r_id = 1, r_name = ''Room 1'', r_current_temp = 4,
                r_target_temp = 4, r_humidity = 70, r_current_product_id = None,
                r_last_updated = None\<rparr> +
           uniform (- round_double 0.2) (round_double 0.2)
             (random_temp \<lparr>random_temp = 0, random_humidity = 1 / 2, update_timestamp = 100,
                insert_timestamp = 100, datetime_now = 101\<rparr>))"
    by (simp only: room.simps sensor_env.simps uniform_temp_at_zero
          round_double_four_minus_lit)
  have hum: "70 =
      round_double (r_humidity \<lparr>r_id = 1, r_name = ''Room 1'', r_current_temp = 4,
                r_target_temp = 4, r_humidity = 70, r_current_product_id = None,
                r_last_updated = None\<rparr> +
           uniform (- 1) 1
             (random_humidity \<lparr>random_temp = 0, random_humidity = 1 / 2,
                update_timestamp = 100, insert_timestamp = 100, datetime_now = 101\<rparr>))"
    by (simp only: room.simps sensor_env.simps uniform_humidity_at_half add_0_right
          round_double_seventy)
  have "(0.2 :: real) < \<bar>4278419646001971 / 2 ^ 50 - 4\<bar>"
    by simp
  then show ?thesis
    by (simp only: update_sensor_data_found [OF room temp hum] fst_conv sensor_env.simps)
qed

text \<open>
  C8, amended. For every room that exists and all values of \<^verbatim>\<open>random()\<close> in
  \<open>[0, 1)\<close>, \<open>update_sensor_data\<close> returns as temperature the double nearest to the
  previous \<open>current_temp\<close> plus a fluctuation of absolute value at most the double
  \<open>0.2\<close>, and as humidity the double nearest to the previous \<open>humidity\<close> plus a
  fluctuation of absolute value at most 1. So the temperature moves by at most
  \<open>0.2\<close> (as a double) plus the rounding of the sum, which is at most
  \<open>(\<bar>current_temp\<bar> + 0.2) / 2^53 + 2^-1075\<close>, and the humidity by at most 1 plus
  \<open>(\<bar>humidity\<bar> + 1) / 2^53 + 2^-1075\<close>. The reading is written to the room, and
  exactly one \<open>sensor_data\<close> row, for this room and with the same temperature and
  humidity, is appended; the rows that were there stay.
\<close>

theorem update_sensor_data_reading:
  assumes "find (\<lambda>r. r_id r = room_id self) (rooms d) = Some r"
    and "0 \<le> random_temp env" and "random_temp env < 1"
    and "0 \<le> random_humidity env" and "random_humidity env < 1"
  shows "\<exists>delta_temp delta_humidity new_temp new_humidity d' row.
           update_sensor_data self env d =
             ((Some new_temp, Some new_humidity, Some (datetime_now env)), d')
         \<and> new_temp = round_double (r_current_temp r + delta_temp)
         \<and> \<bar>delta_temp\<bar> \<le> round_double 0.2
         \<and> new_humidity = round_double (r_humidity r + delta_humidity)
         \<and> \<bar>delta_humidity\<bar> \<le> 1
         \<and> \<bar>new_temp - r_current_temp r\<bar> \<le>
               round_double 0.2 + (\<bar>r_current_temp r\<bar> + round_double 0.2) / 2 ^ 53
                 + 1 / 2 ^ 1075
         \<and> \<bar>new_humidity - r_humidity r\<bar> \<le>
               1 + (\<bar>r_humidity r\<bar> + 1) / 2 ^ 53 + 1 / 2 ^ 1075
         \<and> find (\<lambda>r. r_id r = room_id self) (rooms d') =
             Some (r\<lparr>r_current_temp := new_temp, r_humidity := new_humidity,
                     r_last_updated := Some (update_timestamp env)\<rparr>)
         \<and> sensor_data d' = sensor_data d @ [row]
         \<and> s_room_id row = room_id self
         \<and> s_temperature row = new_temp
         \<and> s_humidity row = new_humidity"
proof -
  define delta_temp where
    "delta_temp = uniform (- round_double 0.2) (round_double 0.2) (random_temp env)"
  define delta_humidity where
    "delta_humidity = uniform (- 1) 1 (random_humidity env)"
  define new_temp where "new_temp = round_double (r_current_temp r + delta_temp)"
  define new_humidity where "new_humidity = round_double (r_humidity r + delta_humidity)"
  define upd :: "room \<Rightarrow> room" where
    "upd = (\<lambda>x. if r_id x = room_id self
                 then x\<lparr>r_current_temp := new_temp, r_humidity := new_humidity,
                        r_last_updated := Some (update_timestamp env)\<rparr>
                 else x)"
  define row :: sensor_row where
    "row = \<lparr>s_id = next_rowid (map s_id (sensor_data d)), s_room_id = room_id self,
             s_temperature = new_temp, s_humidity = new_humidity,
             s_timestamp = insert_timestamp env\<rparr>"
  define d' where "d' = d\<lparr>rooms := map upd (rooms d), sensor_data := sensor_data d @ [row]\<rparr>"
  have id: "r_id r = room_id self"
    using assms(1) by (auto simp: find_Some_iff)
  have result: "update_sensor_data self env d =
                  ((Some new_temp, Some new_humidity, Some (datetime_now env)), d')"
    unfolding d'_def upd_def row_def
    by (rule update_sensor_data_found [OF assms(1)])
      (simp_all only: new_temp_def new_humidity_def delta_temp_def delta_humidity_def)
  have dt: "\<bar>delta_temp\<bar> \<le> round_double 0.2"
    unfolding delta_temp_def using assms(2,3) by (rule uniform_temp_range)
  have dh: "\<bar>delta_humidity\<bar> \<le> 1"
    unfolding delta_humidity_def using assms(4,5) by (rule uniform_humidity_range)
  have temp: "\<bar>new_temp - r_current_temp r\<bar> \<le>
               round_double 0.2 + (\<bar>r_current_temp r\<bar> + round_double 0.2) / 2 ^ 53
                 + 1 / 2 ^ 1075"
    unfolding new_temp_def using dt by (rule round_double_add_bound)
  have hum: "\<bar>new_humidity - r_humidity r\<bar> \<le>
               1 + (\<bar>r_humidity r\<bar> + 1) / 2 ^ 53 + 1 / 2 ^ 1075"
    unfolding new_humidity_def using dh by (rule round_double_add_bound)
  have "find (\<lambda>r. r_id r = room_id self) (map upd (rooms d)) = Some (upd r)"
    using assms(1) by (rule find_map_update) (simp add: upd_def)
  then have room: "find (\<lambda>r. r_id r = room_id self) (rooms d') =
                Some (r\<lparr>r_current_temp := new_temp, r_humidity := new_humidity,
                        r_last_updated := Some (update_timestamp env)\<rparr>)"
    using id by (simp add: d'_def upd_def)
  have samples: "sensor_data d' = sensor_data d @ [row]"
    by (simp add: d'_def)
  have fields: "s_room_id row = room_id self \<and> s_temperature row = new_temp
                  \<and> s_humidity row = new_humidity"
    by (simp add: row_def)
  from result new_temp_def dt new_humidity_def dh temp hum room samples fields
  show ?thesis by blast
qed

theorem update_sensor_data_reading_witness:
  "\<exists>delta_temp delta_humidity new_temp new_humidity d' row.
     update_sensor_data \<lparr>room_id = 3\<rparr>
        \<lparr>random_temp = 3 / 4, random_humidity = 0, update_timestamp = 100,
         insert_timestamp = 100, datetime_now = 101\<rparr> (init_db empty_db) =
       ((Some new_temp, Some new_humidity, Some 101), d')
   \<and> new_temp = round_double (- 18 + delta_temp)
   \<and> \<bar>delta_temp\<bar> \<le> round_double 0.2
   \<and> new_humidity = round_double (70 + delta_humidity)
   \<and> \<bar>delta_humidity\<bar> \<le> 1
   \<and> \<bar>new_temp - (- 18)\<bar> \<le>
         round_double 0.2 + (\<bar>- 18\<bar> + round_double 0.2) / 2 ^ 53 + 1 / 2 ^ 1075
   \<and> \<bar>new_humidity - 70\<bar> \<le> 1 + (\<bar>70\<bar> + 1) / 2 ^ 53 + 1 / 2 ^ 1075
   \<and> find (\<lambda>r. r_id r = 3) (rooms d') =
        Some \<lparr>r_id = 3, r_name = ''Freezer 1'', r_current_temp = new_temp,
              r_target_temp = - 18, r_humidity = new_humidity, r_current_product_id = None,
              r_last_updated = Some 100\<rparr>
   \<and> sensor_data d' = [row]
   \<and> s_room_id row = 3
   \<and> s_temperature row = new_temp
   \<and> s_humidity row = new_humidity"
proof -
  have "find (\<lambda>r. r_id r = room_id \<lparr>room_id = 3\<rparr>) (rooms (init_db empty_db)) =
          Some \<lparr>r_id = 3, r_name = ''Freezer 1'', r_current_temp = - 18,
              r_target_temp = - 18, r_humidity = 70, r_current_product_id = None,
              r_last_updated = None\<rparr>"
    by (simp add: init_db_def empty_db_def)
  from update_sensor_data_reading [OF this,
      of "\<lparr>random_temp = 3 / 4, random_humidity = 0, update_timestamp = 100,
         insert_timestamp = 100, datetime_now = 101\<rparr>"]
  show ?thesis
    by (simp add: init_db_def empty_db_def)
qed

text \<open>
  C9. For every room id and every database, \<open>update_sensor_data\<close> leaves the
  \<open>products\<close> table unchanged; it also leaves every room with another id unchanged and
  keeps the rows that \<open>sensor_data\<close> had.
\<close>

theorem update_sensor_data_frame:
  "products (snd (update_sensor_data self env d)) = products d
   \<and> filter (\<lambda>r. r_id r \<noteq> room_id self) (rooms (snd (update_sensor_data self env d))) =
       filter (\<lambda>r. r_id r \<noteq> room_id self) (rooms d)
   \<and> take (length (sensor_data d)) (sensor_data (snd (update_sensor_data self env d))) =
       sensor_data d"
proof (cases "find (\<lambda>r. r_id r = room_id self) (rooms d)")
  case None
  then have "filter (\<lambda>r. r_id r = room_id self) (rooms d) = []"
    by (simp add: find_None_iff filter_empty_conv)
  then have "update_sensor_data self env d = ((None, None, None), d)"
    by (simp add: update_sensor_data_def fetchone_def)
  then show ?thesis by simp
next
  case (Some r)
  have "filter (\<lambda>r. r_id r \<noteq> room_id self)
          (map (\<lambda>x. if r_id x = room_id self
                     then x\<lparr>r_current_temp := a, r_humidity := b, r_last_updated := c\<rparr>
                     else x) xs) =
        filter (\<lambda>r. r_id r \<noteq> room_id self) xs" for a b c xs
    by (induction xs) simp_all
  then show ?thesis
    by (simp add: update_sensor_data_found [OF Some refl refl])
qed

theorem update_sensor_data_frame_witness:
  "products (snd (update_sensor_data \<lparr>room_id = 1\<rparr>
        \<lparr>random_temp = 0.75, random_humidity = 0.25, update_timestamp = 100,
         insert_timestamp = 100, datetime_now = 101\<rparr> (init_db empty_db))) =
     products (init_db empty_db)"
  using update_sensor_data_frame [of "\<lparr>room_id = 1\<rparr>"
        "\<lparr>random_temp = 0.75, random_humidity = 0.25, update_timestamp = 100,
         insert_timestamp = 100, datetime_now = 101\<rparr>" "init_db empty_db"]
  by simp

end
